theory Spec2Isabelle
  imports Complex_Main "HOL-Library.Sublist" "HOL-Library.Log_Nat"
begin

section \<open>Exceptions, paths and the outside world\<close>

text \<open>
  A Python exception is a value: its class (only the classes the code itself raises are
  told apart) and the text \<open>str(e)\<close> gives. \<open>LibraryError\<close> stands for any other
  subclass of \<open>Exception\<close> raised by a library (PIL, ultralytics, requests, gTTS, the
  operating system), with the text of its \<open>str\<close>.
\<close>

datatype error =
    RuntimeError string
  | ValueError string
  | KeyError string
  | TypeError string
  | IndexError string
  | LibraryError string

fun str_of_error :: "error \<Rightarrow> string" where
  "str_of_error (RuntimeError m) = m"
| "str_of_error (ValueError m) = m"
| "str_of_error (KeyError m) = m"
| "str_of_error (TypeError m) = m"
| "str_of_error (IndexError m) = m"
| "str_of_error (LibraryError m) = m"

text \<open>\<open>os.path.join\<close> of two components on a POSIX system.\<close>

definition os_path_join :: "string \<Rightarrow> string \<Rightarrow> string" where
  "os_path_join a b =
     (if b \<noteq> [] \<and> hd b = CHR ''/'' then b
      else if a = [] \<or> last a = CHR ''/'' then a @ b
      else a @ ''/'' @ b)"

text \<open>
  What persists in the process and on its storage between calls. The lists are traces
  of the calls made to the outside: every construction of a YOLO model (with the path
  given), every call of the captioner, every HTTP POST sent, every call of the
  speech cache \<open>TTSService.get_speech\<close> and every call of the synthesizer
  \<open>TTSModel.generate_speech\<close> (each with its text), every reading of the clock. \<open>fs\<close> maps each
  existing path to the size of the file there.
\<close>

record world =
  fs :: "string \<rightharpoonup> nat"
  uuid_draws :: nat
  yolo_loads :: "string list"
  caption_calls :: nat
  http_posts :: nat
  speech_calls :: "string list"
  synth_calls :: "string list"
  clock_reads :: nat

section \<open>Floating-point division of integers\<close>

text \<open>
  A Python float is a double: a real number with 53 significant bits. \<open>a / b\<close> on two
  integers is the double nearest to the exact quotient, a tie going to the even
  significand. \<open>floor_log2_quot a b\<close> is the binary exponent of \<open>a / b\<close> for positive
  \<open>a\<close> and \<open>b\<close>, and \<open>nearest_double a b\<close> the quotient rounded at 53 bits from there;
  \<open>py_truediv\<close> adds the sign. The range of the exponent is not modelled (no overflow,
  no subnormal numbers): the quotients taken here are thirds of image widths. Division
  by zero, which raises in Python, does not occur: the code divides by 3.
\<close>

definition round_half_even :: "real \<Rightarrow> int" where
  "round_half_even r =
     (let f = \<lfloor>r\<rfloor>; d = r - of_int f
      in if d < 1 / 2 then f else if 1 / 2 < d then f + 1 else if even f then f else f + 1)"

definition floor_log2_quot :: "int \<Rightarrow> int \<Rightarrow> int" where
  "floor_log2_quot a b =
     (let k = bitlen a - bitlen b
      in if real_of_int b * 2 powi k \<le> real_of_int a then k else k - 1)"

definition nearest_double :: "int \<Rightarrow> int \<Rightarrow> real" where
  "nearest_double a b =
     (let e = floor_log2_quot a b - 52;
          m = round_half_even (real_of_int a / real_of_int b / 2 powi e)
      in real_of_int m * 2 powi e)"

definition py_truediv :: "int \<Rightarrow> int \<Rightarrow> real" where
  "py_truediv a b =
     (if a = 0 \<or> b = 0 then 0
      else real_of_int (sgn a * sgn b) * nearest_double \<bar>a\<bar> \<bar>b\<bar>)"

text \<open>\<open>str\<close> of an integer.\<close>

fun str_of_nat :: "nat \<Rightarrow> string" where
  "str_of_nat n =
     (if n < 10 then [''0123456789'' ! n]
      else str_of_nat (n div 10) @ [''0123456789'' ! (n mod 10)])"

declare str_of_nat.simps [simp del]

definition str_of_int :: "int \<Rightarrow> string" where
  "str_of_int i = (if i < 0 then CHR ''-'' # str_of_nat (nat (- i)) else str_of_nat (nat i))"

section \<open>Position of a box (\<open>models/yolo/yolo_model.py\<close>)\<close>

text \<open>
  Modelled from the spec: the enum \<open>Position\<close> and the model \<open>DetectedObject\<close> of
  \<open>src/schemas/detection_schemas.py\<close>, which is not among the sources: a position is
  one of left, center, right; a detected object has a label, a position and a
  confidence. A Python float is read as the real number it stands for; the two
  thresholds of \<open>_determine_position\<close> are the floats that \<open>img_width / 3\<close> and
  \<open>2 * img_width / 3\<close> compute, and comparing two floats is comparing their values.
\<close>

datatype Position = left | center | right

record DetectedObject =
  object :: string
  position :: Position
  confidence :: real

definition determine_position :: "real \<Rightarrow> int \<Rightarrow> Position" where
  "determine_position x_center img_width =
     (if x_center < py_truediv img_width 3 then left
      else if x_center > py_truediv (2 * img_width) 3 then right
      else center)"

section \<open>Speech synthesis (\<open>models/tts/tts_model.py\<close>)\<close>

text \<open>
  The engine behind the synthesizer: \<open>uuid4 k\<close> is the text of the \<open>k\<close>-th UUID drawn
  in the process; \<open>gTTS_save k text path\<close> is what converting \<open>text\<close> and saving it to
  \<open>path\<close> does at the \<open>k\<close>-th call of the synthesizer: \<open>Inl e\<close> when gTTS raises \<open>e\<close>,
  \<open>Inr n\<close> when a file of \<open>n\<close> bytes is written.
\<close>

record tts_engine =
  uuid4 :: "nat \<Rightarrow> string"
  gTTS_save :: "nat \<Rightarrow> string \<Rightarrow> string \<Rightarrow> error + nat"

record TTSModel =
  output_dir :: string

definition generate_speech ::
  "tts_engine \<Rightarrow> TTSModel \<Rightarrow> world \<Rightarrow> string \<Rightarrow> (error + string) \<times> world" where
  "generate_speech eng self w text =
     (let w0 = w\<lparr>synth_calls := synth_calls w @ [text]\<rparr> in
      if text = [] then (Inl (ValueError ''Empty text cannot be converted to speech''), w0)
      else
        let file_name = uuid4 eng (uuid_draws w0) @ ''.mp3'';
            w1 = w0\<lparr>uuid_draws := Suc (uuid_draws w0)\<rparr>;
            file_path = os_path_join (output_dir self) file_name
        in case gTTS_save eng (length (synth_calls w)) text file_path of
             Inl e \<Rightarrow>
               (Inl (RuntimeError (''Speech generation failed: '' @ str_of_error e)), w1)
           | Inr n \<Rightarrow> (Inr file_path, w1\<lparr>fs := (fs w1)(file_path \<mapsto> n)\<rparr>))"

section \<open>The speech cache (\<open>services/tts_service.py\<close>)\<close>

record TTSService =
  tts :: TTSModel
  cache :: "string \<rightharpoonup> string"

definition get_speech ::
  "tts_engine \<Rightarrow> TTSService \<Rightarrow> world \<Rightarrow> string \<Rightarrow> bool
     \<Rightarrow> (error + string) \<times> TTSService \<times> world" where
  "get_speech eng self w text use_cache =
     (let w0 = w\<lparr>speech_calls := speech_calls w @ [text]\<rparr> in
      case (if use_cache then cache self text else None) of
        Some cached \<Rightarrow> (Inr cached, self, w0)
      | None \<Rightarrow>
          (case generate_speech eng (tts self) w0 text of
             (Inr file_path, w') \<Rightarrow>
               (Inr file_path,
                (if use_cache then self\<lparr>cache := (cache self)(text \<mapsto> file_path)\<rparr> else self),
                w')
           | (Inl e, w') \<Rightarrow>
               (Inl (RuntimeError (''TTS Service Error: '' @ str_of_error e)), self, w')))"

definition clear_cache :: "TTSService \<Rightarrow> TTSService" where
  "clear_cache self = self\<lparr>cache := Map.empty\<rparr>"

definition TTSModel_init :: "string \<Rightarrow> string \<Rightarrow> TTSModel" where
  "TTSModel_init src_dir tts_output_dir = \<lparr>output_dir = os_path_join src_dir tts_output_dir\<rparr>"

definition TTSService_init :: "string \<Rightarrow> string \<Rightarrow> TTSService" where
  "TTSService_init src_dir tts_output_dir =
     \<lparr>tts = TTSModel_init src_dir tts_output_dir, cache = Map.empty\<rparr>"

section \<open>The detector (\<open>models/yolo/yolo_model.py\<close>)\<close>

text \<open>
  The detection engine, outside the repository: \<open>YOLO k path\<close> is what constructing a
  model from \<open>path\<close> does at the \<open>k\<close>-th construction in the process (a handle, or
  the exception raised); \<open>Image_open path\<close> is \<open>Image.open(path).convert("RGB")\<close>;
  \<open>run_model m img\<close> is \<open>model(img)[0].boxes\<close>; \<open>names m\<close> is the dictionary
  \<open>model.names\<close>. A box is read as the code reads it: the four coordinates of
  \<open>box.xyxy[0]\<close>, \<open>int(box.cls[0])\<close> and \<open>float(box.conf[0])\<close>.
\<close>

type_synonym model_handle = nat

record image =
  img_width :: int
  img_height :: int

record box =
  x_min :: real
  y_min :: real
  x_max :: real
  y_max :: real
  cls :: int
  conf :: real

record yolo_engine =
  YOLO :: "nat \<Rightarrow> string \<Rightarrow> error + model_handle"
  Image_open :: "string \<Rightarrow> error + image"
  run_model :: "model_handle \<Rightarrow> image \<Rightarrow> error + box list"
  names :: "model_handle \<Rightarrow> int \<rightharpoonup> string"

text \<open>
  The settings the code reads (\<open>config/settings.py\<close>), and with them \<open>SRC_DIR\<close>, the
  directory \<open>src\<close> that the modules find from their own \<open>__file__\<close>.
\<close>

record Settings =
  ALLOWED_EXTENSIONS :: "string list"
  UPLOAD_FOLDER :: string
  OPENROUTER_API_KEY :: string
  VLM_MODEL_NAME :: string
  VLM_API_URL :: string
  YOLO_MODEL_NAME :: string
  TTS_OUTPUT_DIR :: string
  SRC_DIR :: string

record YOLOModelManager =
  models_cache :: "string \<rightharpoonup> model_handle"

definition YOLOModelManager_init :: YOLOModelManager where
  "YOLOModelManager_init = \<lparr>models_cache = Map.empty\<rparr>"

definition possible_paths :: "Settings \<Rightarrow> string \<Rightarrow> string list" where
  "possible_paths cfg model_name =
     [model_name,
      ''models/yolo/'' @ model_name,
      ''src/models/yolo/'' @ model_name,
      os_path_join (os_path_join (os_path_join (SRC_DIR cfg) ''models'') ''yolo'') model_name]"

definition get_model_path :: "Settings \<Rightarrow> world \<Rightarrow> string \<Rightarrow> string" where
  "get_model_path cfg w model_name =
     (case find (\<lambda>path. fs w path \<noteq> None) (possible_paths cfg model_name) of
        Some path \<Rightarrow> path
      | None \<Rightarrow> model_name)"

definition load_model ::
  "Settings \<Rightarrow> yolo_engine \<Rightarrow> YOLOModelManager \<Rightarrow> world \<Rightarrow> string option
     \<Rightarrow> (error + model_handle) \<times> YOLOModelManager \<times> world" where
  "load_model cfg eng self w model_name_arg =
     (let model_name = (case model_name_arg of
                          None \<Rightarrow> YOLO_MODEL_NAME cfg
                        | Some n \<Rightarrow> if n = [] then YOLO_MODEL_NAME cfg else n)
      in case models_cache self model_name of
           Some model \<Rightarrow> (Inr model, self, w)
         | None \<Rightarrow>
             (let model_path = get_model_path cfg w model_name;
                  w' = w\<lparr>yolo_loads := yolo_loads w @ [model_path]\<rparr>
              in case YOLO eng (length (yolo_loads w)) model_path of
                   Inl e \<Rightarrow>
                     (Inl (RuntimeError (''Model loading failed: '' @ str_of_error e)), self, w')
                 | Inr model \<Rightarrow>
                     (Inr model,
                      self\<lparr>models_cache := (models_cache self)(model_name \<mapsto> model)\<rparr>, w')))"

text \<open>
  The loop over the boxes; \<open>objects\<close> is the list built so far. A class index that
  \<open>model.names\<close> does not hold raises \<open>KeyError\<close> of that index. The center of a box is
  taken as the exact half of the sum of its two coordinates.
\<close>

fun boxes_to_objects ::
  "(int \<rightharpoonup> string) \<Rightarrow> int \<Rightarrow> box list \<Rightarrow> DetectedObject list
     \<Rightarrow> error + DetectedObject list" where
  "boxes_to_objects model_names width [] objects = Inr objects"
| "boxes_to_objects model_names width (b # boxes) objects =
     (let x_center = (x_min b + x_max b) / 2;
          pos = determine_position x_center width
      in case model_names (cls b) of
           None \<Rightarrow> Inl (KeyError (str_of_int (cls b)))
         | Some label \<Rightarrow>
             boxes_to_objects model_names width boxes
               (objects @ [\<lparr>object = label, position = pos, confidence = conf b\<rparr>]))"

definition detect_objects_yolo ::
  "Settings \<Rightarrow> yolo_engine \<Rightarrow> YOLOModelManager \<Rightarrow> world \<Rightarrow> string \<Rightarrow> real
     \<Rightarrow> (error + DetectedObject list) \<times> YOLOModelManager \<times> world" where
  "detect_objects_yolo cfg eng self w image_path confidence_threshold =
     (case load_model cfg eng self w None of
        (Inl e, self', w') \<Rightarrow> (Inl e, self', w')
      | (Inr model, self', w') \<Rightarrow>
          (case Image_open eng image_path of
             Inl e \<Rightarrow> (Inl e, self', w')
           | Inr img \<Rightarrow>
               (case run_model eng model img of
                  Inl e \<Rightarrow> (Inl e, self', w')
                | Inr boxes \<Rightarrow>
                    (boxes_to_objects (names eng model) (img_width img) boxes [], self', w'))))"

section \<open>The captioner (\<open>models/vlm/vlm_model.py\<close>)\<close>

text \<open>
  A parsed JSON document as Python holds it: \<open>JNull\<close> is \<open>None\<close>, an object is a
  dictionary (given as the list of its members in the order of the document, a later
  member replacing an earlier one of the same name).
\<close>

datatype json =
    JNull
  | JBool bool
  | JNum real
  | JStr string
  | JArr "json list"
  | JObj "(string \<times> json) list"

text \<open>Python's truth value of an object.\<close>

fun py_truthy :: "json \<Rightarrow> bool" where
  "py_truthy JNull = False"
| "py_truthy (JBool b) = b"
| "py_truthy (JNum r) = (r \<noteq> 0)"
| "py_truthy (JStr s) = (s \<noteq> [])"
| "py_truthy (JArr xs) = (xs \<noteq> [])"
| "py_truthy (JObj kvs) = (kvs \<noteq> [])"

text \<open>\<open>key in obj\<close> for a string \<open>key\<close>.\<close>

fun py_contains :: "string \<Rightarrow> json \<Rightarrow> error + bool" where
  "py_contains k (JObj kvs) = Inr (k \<in> set (map fst kvs))"
| "py_contains k (JArr xs) = Inr (JStr k \<in> set xs)"
| "py_contains k (JStr s) = Inr (sublist k s)"
| "py_contains k v = Inl (TypeError ''argument is not iterable'')"

text \<open>\<open>obj[key]\<close> for a string \<open>key\<close>.\<close>

fun py_getitem :: "json \<Rightarrow> string \<Rightarrow> error + json" where
  "py_getitem (JObj kvs) k =
     (case map_of (rev kvs) k of None \<Rightarrow> Inl (KeyError k) | Some v \<Rightarrow> Inr v)"
| "py_getitem (JArr xs) k = Inl (TypeError ''list indices must be integers or slices, not str'')"
| "py_getitem (JStr s) k = Inl (TypeError ''string indices must be integers'')"
| "py_getitem v k = Inl (TypeError ''object is not subscriptable'')"

text \<open>\<open>obj[0]\<close>.\<close>

fun py_getitem0 :: "json \<Rightarrow> error + json" where
  "py_getitem0 (JArr []) = Inl (IndexError ''list index out of range'')"
| "py_getitem0 (JArr (x # xs)) = Inr x"
| "py_getitem0 (JStr []) = Inl (IndexError ''string index out of range'')"
| "py_getitem0 (JStr (c # s)) = Inr (JStr [c])"
| "py_getitem0 (JObj kvs) = Inl (KeyError ''0'')"
| "py_getitem0 v = Inl (TypeError ''object is not subscriptable'')"

text \<open>Running the next step unless an exception has been raised.\<close>

definition and_then :: "error + 'a \<Rightarrow> ('a \<Rightarrow> error + 'b) \<Rightarrow> error + 'b" where
  "and_then r f = (case r of Inl e \<Rightarrow> Inl e | Inr v \<Rightarrow> f v)"

text \<open>
  An HTTP response as the code uses it: the status, and what \<open>response.json()\<close> does
  (the parsed body, or the exception for a body that is not JSON).
  \<open>raise_for_status\<close> is the method of the \<open>requests\<close> library: it raises for a status
  from 400 to 599 and for no other.
\<close>

record http_response =
  status_code :: nat
  response_json :: "error + json"

definition raise_for_status :: "http_response \<Rightarrow> error + unit" where
  "raise_for_status response =
     (if 400 \<le> status_code response \<and> status_code response < 600
      then Inl (LibraryError ''HTTPError'') else Inr ())"

text \<open>
  The outside of the captioner: reading the bytes of a file, base64 encoding, and
  \<open>requests_post k url payload headers\<close>, what the \<open>k\<close>-th POST of the process answers
  (a response, or the exception raised).
\<close>

record vlm_engine =
  read_file :: "string \<Rightarrow> error + string"
  b64encode :: "string \<Rightarrow> string"
  requests_post :: "nat \<Rightarrow> string \<Rightarrow> json \<Rightarrow> (string \<times> string) list \<Rightarrow> error + http_response"

record VLMModelManager =
  api_key :: string
  api_url :: string
  model_name :: string

definition VLMModelManager_init :: "Settings \<Rightarrow> VLMModelManager" where
  "VLMModelManager_init cfg =
     \<lparr>api_key = OPENROUTER_API_KEY cfg, api_url = VLM_API_URL cfg,
      model_name = VLM_MODEL_NAME cfg\<rparr>"

definition em_dash :: string where
  "em_dash = [CHR 0xE2, CHR 0x80, CHR 0x94]"

definition right_quote :: string where
  "right_quote = [CHR 0xE2, CHR 0x80, CHR 0x99]"

definition prompt_text :: "string \<Rightarrow> string" where
  "prompt_text objects_desc =
     ''Describe this image for a visually impaired user in one smooth, continuous paragraph ''
     @ em_dash @ '' no headings, no bullet points, no line breaks. ''
     @ ''Use natural, conversational language that paints a clear mental picture. ''
     @ ''Start with the most prominent elements (highest confidence), then describe others in order of importance. ''
     @ ''Mention people: how many, where they are (left/center/right), and what they might be doing or feeling. ''
     @ ''Describe key objects (like tables, signs, decorations) and their placement. ''
     @ ''Suggest the context '' @ em_dash @ '' is it a celebration? A meal? A meeting? ''
     @ em_dash @ '' based on what'' @ right_quote @ ''s visible. ''
     @ ''Keep it under 5 sentences, but rich in useful sensory and spatial details. ''
     @ ''Key elements in order of prominence: '' @ objects_desc @ ''.''"

definition caption_payload :: "VLMModelManager \<Rightarrow> string \<Rightarrow> string \<Rightarrow> json" where
  "caption_payload self text_of_prompt image_base64 =
     JObj [(''model'', JStr (model_name self)),
           (''messages'',
            JArr [JObj [(''role'', JStr ''user''),
                        (''content'',
                         JArr [JObj [(''type'', JStr ''text''), (''text'', JStr text_of_prompt)],
                               JObj [(''type'', JStr ''image_url''),
                                     (''image_url'',
                                      JObj [(''url'',
                                             JStr (''data:image/jpeg;base64,'' @ image_base64))])]])]])]"

definition caption_headers :: "VLMModelManager \<Rightarrow> (string \<times> string) list" where
  "caption_headers self =
     [(''Authorization'', ''Bearer '' @ api_key self), (''Content-Type'', ''application/json'')]"

text \<open>The last statements of the \<open>try\<close> block: reading the caption out of the parsed body.\<close>

definition extract_caption :: "json \<Rightarrow> error + json" where
  "extract_caption result =
     and_then (py_contains ''choices'' result) (\<lambda>has_choices.
       if \<not> has_choices then Inr JNull
       else and_then (py_getitem result ''choices'') (\<lambda>choices.
         if py_truthy choices
         then and_then (py_getitem result ''choices'') (\<lambda>choices'.
              and_then (py_getitem0 choices') (\<lambda>choice.
              and_then (py_getitem choice ''message'') (\<lambda>message.
                py_getitem message ''content'')))
         else Inr JNull))"

text \<open>The body of the \<open>try\<close> block.\<close>

definition generate_caption_try ::
  "vlm_engine \<Rightarrow> VLMModelManager \<Rightarrow> world \<Rightarrow> string \<Rightarrow> string \<Rightarrow> (error + json) \<times> world" where
  "generate_caption_try eng self w image_path objects_desc =
     (case read_file eng image_path of
        Inl e \<Rightarrow> (Inl e, w)
      | Inr image_bytes \<Rightarrow>
          (let image_base64 = b64encode eng image_bytes;
               payload = caption_payload self (prompt_text objects_desc) image_base64;
               headers = caption_headers self;
               w' = w\<lparr>http_posts := Suc (http_posts w)\<rparr>
           in case requests_post eng (http_posts w) (api_url self) payload headers of
                Inl e \<Rightarrow> (Inl e, w')
              | Inr response \<Rightarrow>
                  (and_then (raise_for_status response) (\<lambda>_.
                   and_then (response_json response) extract_caption), w')))"

definition generate_caption ::
  "vlm_engine \<Rightarrow> VLMModelManager \<Rightarrow> world \<Rightarrow> string \<Rightarrow> string \<Rightarrow> (error + json) \<times> world" where
  "generate_caption eng self w image_path objects_desc =
     (if api_key self = [] then (Inr JNull, w)
      else case generate_caption_try eng self w image_path objects_desc of
             (Inl e, w') \<Rightarrow> (Inr JNull, w')
           | (Inr v, w') \<Rightarrow> (Inr v, w'))"

section \<open>The pipeline (\<open>services/detection_service.py\<close>)\<close>

text \<open>
  What the pipeline runs on. The captioner is taken at the interface its signature
  declares: \<open>captioner image_path objects\<close> is what
  \<open>await self.vlm.generate_caption(image_path, objects)\<close> does, an exception raised
  or an optional string returned. \<open>time_time k\<close> is the \<open>k\<close>-th reading of the clock.
  The credential \<open>settings.OPENROUTER_API_KEY\<close> is a secret string, true in a condition
  when it is not empty. The attribute \<open>tts\<close> of the service is \<open>tts_service\<close> here, and
  the parameter \<open>confidence\<close> of the detector and of the pipeline is
  \<open>confidence_threshold\<close>, the shorter names being fields of other records.
\<close>

record pipeline_engine =
  detector :: yolo_engine
  captioner :: "string \<Rightarrow> DetectedObject list \<Rightarrow> error + string option"
  synthesizer :: tts_engine
  time_time :: "nat \<Rightarrow> real"

record DetectionService =
  yolo :: YOLOModelManager
  vlm :: VLMModelManager
  tts_service :: TTSService

definition DetectionService_init :: "Settings \<Rightarrow> DetectionService" where
  "DetectionService_init cfg =
     \<lparr>yolo = YOLOModelManager_init, vlm = VLMModelManager_init cfg,
      tts_service = TTSService_init (SRC_DIR cfg) (TTS_OUTPUT_DIR cfg)\<rparr>"

definition organize_services ::
  "Settings \<Rightarrow> pipeline_engine \<Rightarrow> DetectionService \<Rightarrow> world \<Rightarrow> string \<Rightarrow> real
     \<Rightarrow> (error + DetectedObject list \<times> string option \<times> string option)
        \<times> DetectionService \<times> world" where
  "organize_services cfg eng self w image_path confidence_threshold =
     (case detect_objects_yolo cfg (detector eng) (yolo self) w image_path confidence_threshold of
        (Inl e, yolo', w1) \<Rightarrow> (Inl e, self\<lparr>yolo := yolo'\<rparr>, w1)
      | (Inr detected, yolo', w1) \<Rightarrow>
          (let (caption_text, w2) =
                 (if OPENROUTER_API_KEY cfg \<noteq> []
                  then (case captioner eng image_path detected of
                          Inl e \<Rightarrow> None
                        | Inr c \<Rightarrow> c,
                        w1\<lparr>caption_calls := Suc (caption_calls w1)\<rparr>)
                  else (None, w1));
               (speech_file, tts', w3) =
                 (case caption_text of
                    None \<Rightarrow> (None, tts_service self, w2)
                  | Some c \<Rightarrow>
                      if c = [] then (None, tts_service self, w2)
                      else (case get_speech (synthesizer eng) (tts_service self) w2 c True of
                              (Inl e, t, w') \<Rightarrow> (None, t, w')
                            | (Inr speech_path, t, w') \<Rightarrow> (Some speech_path, t, w')))
           in (Inr (detected, caption_text, speech_file),
               self\<lparr>yolo := yolo', tts_service := tts'\<rparr>, w3)))"

section \<open>The controller (\<open>controllers/ObjectDetectionController.py\<close>)\<close>

text \<open>
  Modelled from the spec: the response model \<open>DetectionResponse\<close> of
  \<open>src/schemas/detection_schemas.py\<close>, which is not among the sources, with the fields
  the spec lists for the result. A field that a construction does not give is absent
  (\<open>None\<close>). The field \<open>error\<close> of the response is \<open>error_message\<close> here, \<open>error\<close>
  being the type of exceptions.
\<close>

record SpeechInfo =
  file_path :: string
  file_size :: nat

record DetectionResponse =
  success :: bool
  caption :: "string option"
  speech :: "SpeechInfo option"
  objects :: "DetectedObject list"
  total_objects :: nat
  original_count :: "nat option"
  processing_time :: real
  error_message :: "string option"

record ObjectDetectionController =
  service :: DetectionService

definition ObjectDetectionController_init :: "Settings \<Rightarrow> ObjectDetectionController" where
  "ObjectDetectionController_init cfg = \<lparr>service = DetectionService_init cfg\<rparr>"

definition detect_objects ::
  "Settings \<Rightarrow> pipeline_engine \<Rightarrow> ObjectDetectionController \<Rightarrow> world \<Rightarrow> string \<Rightarrow> real
     \<Rightarrow> DetectionResponse \<times> ObjectDetectionController \<times> world" where
  "detect_objects cfg eng self w image_path min_confidence =
     (let start_time = time_time eng (clock_reads w);
          end_time = time_time eng (Suc (clock_reads w))
      in case organize_services cfg eng (service self) w image_path min_confidence of
           (Inr (detected, caption_text, speech_file), service', w1) \<Rightarrow>
             (let filtered_objects = filter (\<lambda>obj. confidence obj \<ge> min_confidence) detected;
                  speech_info =
                    (case speech_file of
                       None \<Rightarrow> None
                     | Some p \<Rightarrow>
                         if p = [] then None
                         else (case fs w1 p of
                                 None \<Rightarrow> None
                               | Some n \<Rightarrow> Some \<lparr>file_path = p, file_size = n\<rparr>))
              in (\<lparr>success = True, caption = caption_text, speech = speech_info,
                   objects = filtered_objects, total_objects = length filtered_objects,
                   original_count = Some (length detected),
                   processing_time = end_time - start_time, error_message = None\<rparr>,
                  self\<lparr>service := service'\<rparr>,
                  w1\<lparr>clock_reads := Suc (Suc (clock_reads w1))\<rparr>))
         | (Inl e, service', w1) \<Rightarrow>
             (\<lparr>success = False, caption = None, speech = None, objects = [],
               total_objects = 0, original_count = None,
               processing_time = end_time - start_time,
               error_message = Some (str_of_error e)\<rparr>,
              self\<lparr>service := service'\<rparr>,
              w1\<lparr>clock_reads := Suc (Suc (clock_reads w1))\<rparr>))"

section \<open>The request handler (\<open>utils/file_utils.py\<close>, \<open>routers/data.py\<close>)\<close>

record UploadFile =
  filename :: string
  file_content :: string

datatype HTTPException = HTTPException nat string

text \<open>The extension \<open>os.path.splitext(p)[-1]\<close> on a POSIX system, and \<open>str.lower\<close> on ASCII.\<close>

definition splitext_ext :: "string \<Rightarrow> string" where
  "splitext_ext p =
     (let base = rev (takeWhile (\<lambda>c. c \<noteq> CHR ''/'') (rev p));
          stem = dropWhile (\<lambda>c. c = CHR ''.'') base
      in if CHR ''.'' \<in> set stem
         then CHR ''.'' # rev (takeWhile (\<lambda>c. c \<noteq> CHR ''.'') (rev stem))
         else [])"

definition char_lower :: "char \<Rightarrow> char" where
  "char_lower c =
     (case map_of (zip ''ABCDEFGHIJKLMNOPQRSTUVWXYZ'' ''abcdefghijklmnopqrstuvwxyz'') c of
        Some l \<Rightarrow> l
      | None \<Rightarrow> c)"

definition str_lower :: "string \<Rightarrow> string" where
  "str_lower s = map char_lower s"

fun str_join :: "string \<Rightarrow> string list \<Rightarrow> string" where
  "str_join sep [] = []"
| "str_join sep [x] = x"
| "str_join sep (x # y # ys) = x @ sep @ str_join sep (y # ys)"

definition get_uploads_dir :: "Settings \<Rightarrow> string" where
  "get_uploads_dir cfg = os_path_join (SRC_DIR cfg) (UPLOAD_FOLDER cfg)"

definition save_upload_file ::
  "Settings \<Rightarrow> (nat \<Rightarrow> string) \<Rightarrow> world \<Rightarrow> UploadFile \<Rightarrow> (error + string) \<times> world" where
  "save_upload_file cfg uuid w upload_file =
     (let ext = str_lower (splitext_ext (filename upload_file))
      in if ext \<notin> set (ALLOWED_EXTENSIONS cfg)
         then (Inl (ValueError (''Only '' @ str_join '', '' (ALLOWED_EXTENSIONS cfg)
                                @ '' formats are allowed. Your file has extension: '' @ ext)), w)
         else
           (let file_name = uuid (uuid_draws w) @ ext;
                saved_path = os_path_join (get_uploads_dir cfg) file_name
            in (Inr saved_path,
                w\<lparr>uuid_draws := Suc (uuid_draws w),
                  fs := (fs w)(saved_path \<mapsto> length (file_content upload_file))\<rparr>)))"

definition cleanup_file :: "world \<Rightarrow> string \<Rightarrow> world" where
  "cleanup_file w path =
     (if fs w path \<noteq> None then w\<lparr>fs := (fs w)(path := None)\<rparr> else w)"

text \<open>
  The handler of \<open>POST /api/detect\<close>. It builds its controller, and with it the
  service, the model manager and the speech cache, anew at every request.
\<close>

definition api_detect ::
  "Settings \<Rightarrow> pipeline_engine \<Rightarrow> world \<Rightarrow> UploadFile \<Rightarrow> real
     \<Rightarrow> (HTTPException + DetectionResponse) \<times> world" where
  "api_detect cfg eng w file min_confidence =
     (case save_upload_file cfg (uuid4 (synthesizer eng)) w file of
        (Inl e, w1) \<Rightarrow> (Inl (HTTPException 500 (str_of_error e)), w1)
      | (Inr saved_path, w1) \<Rightarrow>
          (let controller = ObjectDetectionController_init cfg;
               (response, controller', w2) =
                  detect_objects cfg eng controller w1 saved_path min_confidence
           in (Inr response, if saved_path \<noteq> [] then cleanup_file w2 saved_path else w2)))"

text \<open>
  The answer of the remote service to the request of \<open>generate_caption\<close>: what the first
  two steps of its \<open>try\<close> block (reading the image, posting the request) come to.
\<close>

definition caption_request ::
  "vlm_engine \<Rightarrow> VLMModelManager \<Rightarrow> world \<Rightarrow> string \<Rightarrow> string \<Rightarrow> error + http_response" where
  "caption_request eng self w image_path objects_desc =
     (case read_file eng image_path of
        Inl e \<Rightarrow> Inl e
      | Inr image_bytes \<Rightarrow>
          requests_post eng (http_posts w) (api_url self)
            (caption_payload self (prompt_text objects_desc) (b64encode eng image_bytes))
            (caption_headers self))"

text \<open>
  What a well-formed answer carries: the body is an object whose member \<open>choices\<close> is
  a list that begins with an object, whose member \<open>message\<close> is an object with a member
  \<open>content\<close>; the caption is that content. Every other body carries none: a body that
  is not an object, one without \<open>choices\<close>, one whose \<open>choices\<close> is empty or not a
  list of objects, one without \<open>message\<close> or \<open>content\<close>. This is written from the shape
  of the document alone, to be compared with what \<open>extract_caption\<close> computes.
\<close>

definition well_formed_caption :: "json \<Rightarrow> json option" where
  "well_formed_caption body =
     (case body of
        JObj kvs \<Rightarrow>
          (case map_of (rev kvs) ''choices'' of
             Some (JArr (JObj choice # rest)) \<Rightarrow>
               (case map_of (rev choice) ''message'' of
                  Some (JObj message) \<Rightarrow> map_of (rev message) ''content''
                | _ \<Rightarrow> None)
           | _ \<Rightarrow> None)
      | _ \<Rightarrow> None)"

section \<open>Concrete runs\<close>

text \<open>
  A process that has just started, a configuration, engines that answer in a fixed way,
  and the runs on them that the theorems below evaluate.
\<close>

definition world0 :: world where
  "world0 = \<lparr>fs = Map.empty, uuid_draws = 0, yolo_loads = [], caption_calls = 0,
             http_posts = 0, speech_calls = [], synth_calls = [], clock_reads = 0\<rparr>"

definition settings0 :: Settings where
  "settings0 =
     \<lparr>ALLOWED_EXTENSIONS = [''.png'', ''.jpg'', ''.jpeg''], UPLOAD_FOLDER = ''uploads'',
      OPENROUTER_API_KEY = ''sk-or-test'', VLM_MODEL_NAME = ''llama-vision'',
      VLM_API_URL = ''https://openrouter.ai/api/v1/chat/completions'',
      YOLO_MODEL_NAME = ''yolov8n.pt'', TTS_OUTPUT_DIR = ''tts_output'',
      SRC_DIR = ''/app/src''\<rparr>"

definition uuid_seq :: "nat \<Rightarrow> string" where
  "uuid_seq k = ''uuid-'' @ replicate k CHR ''x''"

definition engine_ok :: tts_engine where
  "engine_ok = \<lparr>uuid4 = uuid_seq, gTTS_save = (\<lambda>k spoken path. Inr (length spoken))\<rparr>"

definition engine_flaky :: tts_engine where
  "engine_flaky =
     \<lparr>uuid4 = uuid_seq,
      gTTS_save = (\<lambda>k spoken path.
         if k = 0 then Inl (LibraryError ''connection refused'') else Inr (length spoken))\<rparr>"

definition speech_service0 :: TTSService where
  "speech_service0 = TTSService_init ''/app/src'' ''tts_output''"

definition flaky_first :: "(error + string) \<times> TTSService \<times> world" where
  "flaky_first = get_speech engine_flaky speech_service0 world0 ''a cat'' True"

definition flaky_second :: "(error + string) \<times> TTSService \<times> world" where
  "flaky_second =
     get_speech engine_flaky (fst (snd flaky_first)) (snd (snd flaky_first)) ''a cat'' True"

definition three_boxes :: "box list" where
  "three_boxes =
     [\<lparr>x_min = 10, y_min = 10, x_max = 50, y_max = 90, cls = 0, conf = 0.9\<rparr>,
      \<lparr>x_min = 120, y_min = 20, x_max = 180, y_max = 80, cls = 16, conf = 0.3\<rparr>,
      \<lparr>x_min = 220, y_min = 30, x_max = 290, y_max = 70, cls = 0, conf = 0.6\<rparr>]"

definition three_objects :: "DetectedObject list" where
  "three_objects =
     [\<lparr>object = ''person'', position = left, confidence = 0.9\<rparr>,
      \<lparr>object = ''dog'', position = center, confidence = 0.3\<rparr>,
      \<lparr>object = ''person'', position = right, confidence = 0.6\<rparr>]"

definition yolo_ok :: yolo_engine where
  "yolo_ok =
     \<lparr>YOLO = (\<lambda>k path. Inr k),
      Image_open = (\<lambda>path. Inr \<lparr>img_width = 300, img_height = 100\<rparr>),
      run_model = (\<lambda>m img. Inr three_boxes),
      names = (\<lambda>m. [0 \<mapsto> ''person'', 16 \<mapsto> ''dog''])\<rparr>"

definition yolo_out_of_memory :: yolo_engine where
  "yolo_out_of_memory = yolo_ok\<lparr>Image_open := (\<lambda>path. Inl (LibraryError []))\<rparr>"

definition pipeline_ok :: pipeline_engine where
  "pipeline_ok =
     \<lparr>detector = yolo_ok,
      captioner = (\<lambda>path found. Inr (Some ''Two people and a dog.'')),
      synthesizer = engine_ok,
      time_time = (\<lambda>k. real k)\<rparr>"

definition pipeline_caption_absent :: pipeline_engine where
  "pipeline_caption_absent = pipeline_ok\<lparr>captioner := (\<lambda>path found. Inr None)\<rparr>"

definition pipeline_caption_raises :: pipeline_engine where
  "pipeline_caption_raises =
     pipeline_ok\<lparr>captioner := (\<lambda>path found. Inl (LibraryError ''timeout''))\<rparr>"

definition pipeline_out_of_memory :: pipeline_engine where
  "pipeline_out_of_memory = pipeline_ok\<lparr>detector := yolo_out_of_memory\<rparr>"

definition controller0 :: ObjectDetectionController where
  "controller0 = ObjectDetectionController_init settings0"

definition upload0 :: UploadFile where
  "upload0 = \<lparr>filename = ''street.JPG'', file_content = ''not really an image''\<rparr>"

definition first_request :: "(HTTPException + DetectionResponse) \<times> world" where
  "first_request = api_detect settings0 pipeline_ok world0 upload0 0.5"

definition second_request :: "(HTTPException + DetectionResponse) \<times> world" where
  "second_request = api_detect settings0 pipeline_ok (snd first_request) upload0 0.5"

definition caption_body :: json where
  "caption_body =
     JObj [(''choices'',
            JArr [JObj [(''message'', JObj [(''content'', JStr ''A dog on a sofa.'')])]])]"

definition vlm_answering :: "nat \<Rightarrow> error + json \<Rightarrow> vlm_engine" where
  "vlm_answering status body =
     \<lparr>read_file = (\<lambda>path. Inr ''bytes''),
      b64encode = (\<lambda>bytes. ''Ynl0ZXM=''),
      requests_post = (\<lambda>k url payload headers.
         Inr \<lparr>status_code = status, response_json = body\<rparr>)\<rparr>"

definition vlm_unreachable :: vlm_engine where
  "vlm_unreachable =
     (vlm_answering 200 (Inr caption_body))
       \<lparr>requests_post := (\<lambda>k url payload headers. Inl (LibraryError ''ConnectionError''))\<rparr>"

definition vlm0 :: VLMModelManager where
  "vlm0 = VLMModelManager_init settings0"

definition yolo_bad_image :: yolo_engine where
  "yolo_bad_image =
     yolo_ok\<lparr>Image_open := (\<lambda>path. Inl (LibraryError ''cannot identify image file''))\<rparr>"

definition pipeline_bad_image :: pipeline_engine where
  "pipeline_bad_image = pipeline_ok\<lparr>detector := yolo_bad_image\<rparr>"

definition vlm_no_key :: VLMModelManager where
  "vlm_no_key = vlm0\<lparr>api_key := []\<rparr>"

definition cached_first :: "(error + string) \<times> TTSService \<times> world" where
  "cached_first = get_speech engine_ok speech_service0 world0 ''a cat'' True"

definition empty_first :: "(error + string) \<times> TTSService \<times> world" where
  "empty_first = get_speech engine_ok speech_service0 world0 [] True"

definition empty_second :: "(error + string) \<times> TTSService \<times> world" where
  "empty_second =
     get_speech engine_ok (fst (snd empty_first)) (snd (snd empty_first)) [] True"

section \<open>Facts about the parts\<close>

lemmas scenario_defs =
  world0_def settings0_def uuid_seq_def engine_ok_def yolo_ok_def three_boxes_def
  three_objects_def pipeline_ok_def controller0_def ObjectDetectionController_init_def
  DetectionService_init_def YOLOModelManager_init_def VLMModelManager_init_def
  TTSService_init_def TTSModel_init_def speech_service0_def


text \<open>The float quotient: doubling the dividend doubles it, and it is the nearest double.\<close>

lemma bitlen_double: "0 < a \<Longrightarrow> bitlen (2 * a) = bitlen a + 1"
  using bitlen_pow2 [of a 1] by (simp add: mult.commute)

lemma floor_log2_quot_double:
  assumes "0 < a"
  shows "floor_log2_quot (2 * a) b = floor_log2_quot a b + 1"
proof -
  define k where "k = bitlen a - bitlen b"
  have k': "bitlen (2 * a) - bitlen b = k + 1"
    using bitlen_double [OF assms] by (simp add: k_def)
  have p: "(2::real) powi (k + 1) = 2 * 2 powi k"
    by (simp add: power_int_add)
  have "real_of_int b * 2 powi (k + 1) \<le> real_of_int (2 * a)
          \<longleftrightarrow> real_of_int b * 2 powi k \<le> real_of_int a"
    unfolding p by simp
  then show ?thesis
    unfolding floor_log2_quot_def Let_def k' k_def [symmetric] by simp
qed

lemma nearest_double_double:
  assumes "0 < a"
  shows "nearest_double (2 * a) b = 2 * nearest_double a b"
proof -
  define e where "e = floor_log2_quot a b - 52"
  have e': "floor_log2_quot (2 * a) b - 52 = e + 1"
    using floor_log2_quot_double [OF assms, of b] by (simp add: e_def)
  have p: "(2::real) powi (e + 1) = 2 * 2 powi e"
    by (simp add: power_int_add)
  have q: "real_of_int (2 * a) / real_of_int b / 2 powi (e + 1)
             = real_of_int a / real_of_int b / 2 powi e"
    unfolding p by simp
  show ?thesis
    unfolding nearest_double_def Let_def e' e_def [symmetric] q p by simp
qed

lemma round_half_even_nonneg: "0 \<le> r \<Longrightarrow> 0 \<le> round_half_even r"
  by (auto simp: round_half_even_def Let_def)

lemma round_half_even_error: "\<bar>real_of_int (round_half_even r) - r\<bar> \<le> 1 / 2"
  unfolding round_half_even_def Let_def by (auto; linarith)

lemma nearest_double_nonneg:
  assumes "0 < a" "0 < b"
  shows "0 \<le> nearest_double a b"
  unfolding nearest_double_def Let_def
  using assms
  by (intro mult_nonneg_nonneg) (auto intro!: round_half_even_nonneg simp: power_int_def)

lemma py_truediv_thirds:
  assumes "0 < W"
  shows "py_truediv (2 * W) 3 = 2 * py_truediv W 3" and "0 \<le> py_truediv W 3"
  using assms nearest_double_double [of W 3] nearest_double_nonneg [of W 3]
  by (simp_all add: py_truediv_def)

lemma bitlen_bounds_powi:
  assumes "0 < a"
  shows "2 powi (bitlen a - 1) \<le> real_of_int a" and "real_of_int a < 2 powi bitlen a"
proof -
  from assms have b1: "1 \<le> bitlen a" by (auto simp: bitlen_alt_def)
  from bitlen_bounds [OF assms]
  have l: "2 ^ nat (bitlen a - 1) \<le> a" and u: "a < 2 ^ nat (bitlen a)" by auto
  have "real_of_int (2 ^ nat (bitlen a - 1)) \<le> real_of_int a"
    using l by (rule of_int_le_iff [THEN iffD2])
  then show "2 powi (bitlen a - 1) \<le> real_of_int a"
    using b1 by (simp add: power_int_def)
  have "real_of_int a < real_of_int (2 ^ nat (bitlen a))"
    using u by (rule of_int_less_iff [THEN iffD2])
  then show "real_of_int a < 2 powi bitlen a"
    using b1 by (simp add: power_int_def)
qed

lemma floor_log2_quot_bounds:
  assumes "0 < a" "0 < b"
  shows "2 powi floor_log2_quot a b \<le> real_of_int a / real_of_int b"
    and "real_of_int a / real_of_int b < 2 powi (floor_log2_quot a b + 1)"
proof -
  define k where "k = bitlen a - bitlen b"
  have pa: "2 powi (bitlen a - 1) \<le> real_of_int a" "real_of_int a < 2 powi bitlen a"
    using bitlen_bounds_powi [OF assms(1)] by auto
  have pb: "2 powi (bitlen b - 1) \<le> real_of_int b" "real_of_int b < 2 powi bitlen b"
    using bitlen_bounds_powi [OF assms(2)] by auto
  have bpos: "0 < real_of_int b" using assms by simp
  have la: "bitlen a = k + bitlen b" by (simp add: k_def)
  have lo: "real_of_int b * 2 powi (k - 1) < real_of_int a"
  proof -
    have "real_of_int b * 2 powi (k - 1) < 2 powi bitlen b * 2 powi (k - 1)"
      using pb(2) by (simp add: power_int_def)
    also have "\<dots> = 2 powi (bitlen a - 1)"
      by (simp add: la power_int_add [symmetric] algebra_simps)
    also have "\<dots> \<le> real_of_int a" by (rule pa(1))
    finally show ?thesis .
  qed
  have hi: "real_of_int a < real_of_int b * 2 powi (k + 1)"
  proof -
    have "real_of_int a < 2 powi bitlen a" by (rule pa(2))
    also have "\<dots> = 2 powi (bitlen b - 1) * 2 powi (k + 1)"
      by (simp add: la power_int_add [symmetric] algebra_simps)
    also have "\<dots> \<le> real_of_int b * 2 powi (k + 1)"
      using pb(1) by (intro mult_right_mono) auto
    finally show ?thesis .
  qed
  show "2 powi floor_log2_quot a b \<le> real_of_int a / real_of_int b"
    using lo bpos
    by (auto simp: floor_log2_quot_def Let_def k_def [symmetric] pos_le_divide_eq mult.commute
        intro: less_imp_le)
  have "floor_log2_quot a b + 1
          = (if real_of_int b * 2 powi k \<le> real_of_int a then k + 1 else k)"
    by (simp add: floor_log2_quot_def Let_def k_def [symmetric])
  then show "real_of_int a / real_of_int b < 2 powi (floor_log2_quot a b + 1)"
    using hi bpos
    by (auto simp: pos_divide_less_eq mult.commute not_le)
qed

text \<open>
  \<open>nearest_double a b\<close> has a significand of 53 bits and lies within half a unit in
  the last place of the exact quotient.
\<close>

lemma nearest_double_correct:
  assumes "0 < a" "0 < b"
  defines "e \<equiv> floor_log2_quot a b - 52"
  shows "\<bar>nearest_double a b - real_of_int a / real_of_int b\<bar> \<le> 2 powi e / 2"
    and "\<exists>m. nearest_double a b = real_of_int m * 2 powi e \<and> 2 ^ 52 \<le> m \<and> m \<le> 2 ^ 53"
proof -
  define q where "q = real_of_int a / real_of_int b / 2 powi e"
  define m where "m = round_half_even q"
  have pe: "(0::real) < 2 powi e" by (simp add: power_int_def)
  have nd: "nearest_double a b = real_of_int m * 2 powi e"
    by (simp add: nearest_double_def Let_def m_def q_def e_def)
  have err: "\<bar>real_of_int m - q\<bar> \<le> 1 / 2"
    unfolding m_def by (rule round_half_even_error)
  have "nearest_double a b - real_of_int a / real_of_int b = (real_of_int m - q) * 2 powi e"
    using pe by (simp add: nd q_def algebra_simps)
  then have "\<bar>nearest_double a b - real_of_int a / real_of_int b\<bar>
               = \<bar>real_of_int m - q\<bar> * 2 powi e"
    using pe by (simp add: abs_mult)
  also have "\<dots> \<le> 1 / 2 * 2 powi e"
    using err pe by (intro mult_right_mono) auto
  finally show "\<bar>nearest_double a b - real_of_int a / real_of_int b\<bar> \<le> 2 powi e / 2"
    by simp
  have e52: "2 powi floor_log2_quot a b = 2 ^ 52 * (2::real) powi e"
    unfolding e_def by (simp add: power_int_diff)
  have e53: "2 powi (floor_log2_quot a b + 1) = 2 ^ 53 * (2::real) powi e"
    unfolding e_def by (simp add: power_int_diff power_int_add)
  have "2 ^ 52 * 2 powi e \<le> real_of_int a / real_of_int b"
    using floor_log2_quot_bounds(1) [OF assms(1,2)] unfolding e52 .
  then have ql: "2 ^ 52 \<le> q"
    unfolding q_def by (simp only: pos_le_divide_eq [OF pe])
  have "real_of_int a / real_of_int b < 2 ^ 53 * 2 powi e"
    using floor_log2_quot_bounds(2) [OF assms(1,2)] unfolding e53 .
  then have qu: "q < 2 ^ 53"
    unfolding q_def by (simp only: pos_divide_less_eq [OF pe])
  have "real_of_int (2 ^ 52) \<le> q" using ql by simp
  then have fl: "2 ^ 52 \<le> \<lfloor>q\<rfloor>" by (simp only: le_floor_iff)
  have "q < real_of_int (2 ^ 53)" using qu by simp
  then have fu: "\<lfloor>q\<rfloor> < 2 ^ 53" by (simp only: floor_less_iff)
  have "\<lfloor>q\<rfloor> \<le> m \<and> m \<le> \<lfloor>q\<rfloor> + 1"
    by (auto simp: m_def round_half_even_def Let_def)
  with fl fu have "2 ^ 52 \<le> m \<and> m \<le> 2 ^ 53" by linarith
  with nd show "\<exists>m. nearest_double a b = real_of_int m * 2 powi e \<and> 2 ^ 52 \<le> m \<and> m \<le> 2 ^ 53"
    by blast
qed

text \<open>The thirds of the widths of the concrete runs, as the floats the code computes.\<close>

lemma third_of_300: "py_truediv 300 3 = 100"
  by code_simp

lemma two_thirds_of_300: "py_truediv 600 3 = 200"
  by code_simp

lemma third_of_640: "py_truediv 640 3 = 7505999378950827 / 35184372088832"
  by code_simp

lemma two_thirds_of_640: "py_truediv 1280 3 = 7505999378950827 / 17592186044416"
  by code_simp

lemmas detector_defs =
  detect_objects_yolo_def load_model_def get_model_path_def possible_paths_def
  os_path_join_def determine_position_def third_of_300 two_thirds_of_300 Let_def

lemmas speech_defs = get_speech_def generate_speech_def os_path_join_def Let_def

lemmas vlm_defs =
  generate_caption_def generate_caption_try_def caption_request_def
  vlm_answering_def vlm0_def VLMModelManager_init_def settings0_def world0_def
  raise_for_status_def and_then_def extract_caption_def caption_body_def Let_def
  vlm_unreachable_def vlm_no_key_def

lemma generate_speech_trace:
  "synth_calls (snd (generate_speech eng m w spoken)) = synth_calls w @ [spoken]"
  by (simp add: generate_speech_def Let_def split: sum.splits)

lemma load_model_frame:
  "load_model cfg eng self w arg = (r, self', w') \<Longrightarrow>
     caption_calls w' = caption_calls w \<and> speech_calls w' = speech_calls w
     \<and> synth_calls w' = synth_calls w \<and> http_posts w' = http_posts w
     \<and> fs w' = fs w \<and> clock_reads w' = clock_reads w \<and> uuid_draws w' = uuid_draws w"
  by (auto simp: load_model_def Let_def split: option.splits sum.splits if_splits)

lemma detect_objects_yolo_frame:
  "detect_objects_yolo cfg eng self w image_path t = (r, self', w') \<Longrightarrow>
     caption_calls w' = caption_calls w \<and> speech_calls w' = speech_calls w
     \<and> synth_calls w' = synth_calls w \<and> http_posts w' = http_posts w
     \<and> fs w' = fs w \<and> clock_reads w' = clock_reads w \<and> uuid_draws w' = uuid_draws w"
  unfolding detect_objects_yolo_def
  by (auto split: prod.splits sum.splits dest!: load_model_frame)

text \<open>Within one manager the cache works: a model once loaded is not loaded again.\<close>

lemma load_model_reuses_cache:
  assumes "load_model cfg eng self w arg = (Inr m, self1, w1)"
  shows "load_model cfg eng self1 w1 arg = (Inr m, self1, w1)"
  using assms
  by (auto simp: load_model_def Let_def split: option.splits sum.splits if_splits)

lemma boxes_to_objects_raw:
  "boxes_to_objects nm W boxes acc = Inr D \<Longrightarrow>
     map confidence D = map confidence acc @ map conf boxes"
  by (induction boxes arbitrary: acc) (auto simp: Let_def split: option.splits)

text \<open>A box whose class the model does not name raises \<open>KeyError\<close> of the class index.\<close>

lemma unknown_class_raises:
  "boxes_to_objects Map.empty 300
     [\<lparr>x_min = 10, y_min = 10, x_max = 50, y_max = 90, cls = 5, conf = 0.9\<rparr>] []
     = Inl (KeyError ''5'')"
  by (simp add: str_of_int_def str_of_nat.simps)

lemma organize_services_failure:
  assumes "detect_objects_yolo cfg (detector eng) (yolo svc) w image_path t = (Inl e, y', w')"
  shows "organize_services cfg eng svc w image_path t = (Inl e, svc\<lparr>yolo := y'\<rparr>, w')"
  using assms by (simp add: organize_services_def)

lemma organize_services_detected:
  assumes "detect_objects_yolo cfg (detector eng) (yolo svc) w image_path t = (Inr D, y', w')"
  shows "\<exists>c s svc' w''. organize_services cfg eng svc w image_path t = (Inr (D, c, s), svc', w'')"
  using assms
  by (auto simp: organize_services_def Let_def split: prod.splits option.splits sum.splits)

lemma organize_services_no_caption:
  assumes "detect_objects_yolo cfg (detector eng) (yolo svc) w image_path t = (Inr D, y', w')"
    and "\<forall>c. captioner eng image_path D \<noteq> Inr (Some c)"
  shows "\<exists>w''. organize_services cfg eng svc w image_path t
            = (Inr (D, None, None), svc\<lparr>yolo := y', tts_service := tts_service svc\<rparr>, w'')
          \<and> speech_calls w'' = speech_calls w' \<and> synth_calls w'' = synth_calls w'"
proof (cases "captioner eng image_path D")
  case (Inl a)
  then show ?thesis using assms(1) by (simp add: organize_services_def Let_def)
next
  case (Inr c)
  with assms(2) have "c = None" by (cases c) auto
  with Inr show ?thesis using assms(1) by (simp add: organize_services_def Let_def)
qed

lemma generate_caption_try_request:
  "fst (generate_caption_try eng self w image_path objects_desc)
     = and_then (caption_request eng self w image_path objects_desc) (\<lambda>response.
         and_then (raise_for_status response) (\<lambda>_.
         and_then (response_json response) extract_caption))"
  by (simp add: generate_caption_try_def caption_request_def and_then_def Let_def
      split: sum.splits)

lemma generate_caption_result:
  "fst (generate_caption eng self w image_path objects_desc)
     = (if api_key self = [] then Inr JNull
        else case fst (generate_caption_try eng self w image_path objects_desc) of
               Inl e \<Rightarrow> Inr JNull
             | Inr v \<Rightarrow> Inr v)"
  by (simp add: generate_caption_def split: prod.splits sum.splits)

lemma map_of_rev_None: "map_of (rev kvs) k = None \<longleftrightarrow> k \<notin> set (map fst kvs)"
  by (simp add: map_of_eq_None_iff)

lemma extract_caption_object:
  "extract_caption (JObj kvs) =
     (case map_of (rev kvs) ''choices'' of
        None \<Rightarrow> Inr JNull
      | Some choices \<Rightarrow>
          if py_truthy choices
          then and_then (py_getitem0 choices) (\<lambda>choice.
               and_then (py_getitem choice ''message'') (\<lambda>message.
                 py_getitem message ''content''))
          else Inr JNull)"
proof (cases "map_of (rev kvs) ''choices''")
  case None
  then have "''choices'' \<notin> set (map fst kvs)" by (simp add: map_of_rev_None)
  then show ?thesis using None by (auto simp: extract_caption_def and_then_def)
next
  case (Some c)
  then have "map_of (rev kvs) ''choices'' \<noteq> None" by simp
  then have "\<not> ''choices'' \<notin> set (map fst kvs)"
    unfolding map_of_rev_None .
  then show ?thesis using Some by (simp add: extract_caption_def and_then_def)
qed

text \<open>
  What \<open>extract_caption\<close> returns, an exception counted as \<open>None\<close>, is the caption of a
  well-formed body and \<open>None\<close> for every other body.
\<close>

lemma extract_caption_refines:
  "(case extract_caption body of Inl e \<Rightarrow> JNull | Inr v \<Rightarrow> v)
     = (case well_formed_caption body of None \<Rightarrow> JNull | Some v \<Rightarrow> v)"
proof (cases body)
  case (JObj kvs)
  show ?thesis
  proof (cases "map_of (rev kvs) ''choices''")
    case None
    then show ?thesis using JObj
      by (simp add: extract_caption_object well_formed_caption_def)
  next
    case (Some c)
    show ?thesis
    proof (cases c)
      case (JArr xs)
      show ?thesis
      proof (cases xs)
        case Nil
        then show ?thesis using JObj Some JArr
          by (simp add: extract_caption_object well_formed_caption_def)
      next
        case (Cons x rest)
        show ?thesis
        proof (cases x)
          case (JObj choice)
          show ?thesis
          proof (cases "map_of (rev choice) ''message''")
            case None
            then show ?thesis using \<open>body = JObj kvs\<close> Some JArr Cons JObj
              by (simp add: extract_caption_object well_formed_caption_def and_then_def)
          next
            case (Some m)
            then show ?thesis using \<open>body = JObj kvs\<close> \<open>map_of (rev kvs) ''choices'' = Some c\<close> JArr Cons JObj
              by (cases m)
                 (simp_all add: extract_caption_object well_formed_caption_def and_then_def
                    split: option.splits)
          qed
        qed (use \<open>body = JObj kvs\<close> Some JArr Cons in
              \<open>simp_all add: extract_caption_object well_formed_caption_def and_then_def\<close>)
      qed
    next
      case (JStr str)
      then show ?thesis using JObj Some
        by (cases str)
           (simp_all add: extract_caption_object well_formed_caption_def and_then_def)
    qed (use JObj Some in
          \<open>simp_all add: extract_caption_object well_formed_caption_def and_then_def\<close>)
  qed
qed (auto simp: extract_caption_def well_formed_caption_def and_then_def)

section \<open>The confidence filter of the controller\<close>

text \<open>
  C1. Whatever the threshold \<open>t\<close> and whatever list \<open>D\<close> the detector returns, the
  response of the pipeline carries as \<open>objects\<close> the elements of \<open>D\<close> whose confidence
  is at least \<open>t\<close>, in the order of \<open>D\<close>; \<open>original_count\<close> is the length of \<open>D\<close> and
  \<open>total_objects\<close> the length of the filtered list. So every object returned has
  confidence at least \<open>t\<close>, and \<open>total_objects\<close> is at most \<open>original_count\<close>.
\<close>

theorem detect_objects_filters:
  assumes "fst (detect_objects_yolo cfg (detector eng) (yolo (service self)) w image_path t)
             = Inr D"
  shows "objects (fst (detect_objects cfg eng self w image_path t))
           = filter (\<lambda>obj. t \<le> confidence obj) D
       \<and> original_count (fst (detect_objects cfg eng self w image_path t)) = Some (length D)
       \<and> total_objects (fst (detect_objects cfg eng self w image_path t))
           = length (filter (\<lambda>obj. t \<le> confidence obj) D)
       \<and> (\<forall>obj \<in> set (objects (fst (detect_objects cfg eng self w image_path t))).
             t \<le> confidence obj)
       \<and> total_objects (fst (detect_objects cfg eng self w image_path t)) \<le> length D"
proof -
  from assms obtain y' w' where
    "detect_objects_yolo cfg (detector eng) (yolo (service self)) w image_path t = (Inr D, y', w')"
    by (cases "detect_objects_yolo cfg (detector eng) (yolo (service self)) w image_path t") auto
  from organize_services_detected [OF this] obtain c s svc' w''
    where "organize_services cfg eng (service self) w image_path t = (Inr (D, c, s), svc', w'')"
    by blast
  then show ?thesis by (simp add: detect_objects_def Let_def)
qed

text \<open>
  The scenario of the specification: three boxes with confidences 0.9, 0.3 and 0.6 at
  the threshold 0.5.
\<close>

theorem detect_objects_filters_witness:
  "fst (detect_objects_yolo settings0 (detector pipeline_ok) (yolo (service controller0)) world0
          ''/app/src/uploads/a.jpg'' 0.5) = Inr three_objects
   \<and> objects (fst (detect_objects settings0 pipeline_ok controller0 world0
          ''/app/src/uploads/a.jpg'' 0.5))
       = [\<lparr>object = ''person'', position = left, confidence = 0.9\<rparr>,
          \<lparr>object = ''person'', position = right, confidence = 0.6\<rparr>]
   \<and> original_count (fst (detect_objects settings0 pipeline_ok controller0 world0
          ''/app/src/uploads/a.jpg'' 0.5)) = Some 3
   \<and> total_objects (fst (detect_objects settings0 pipeline_ok controller0 world0
          ''/app/src/uploads/a.jpg'' 0.5)) = 2"
proof -
  have h: "fst (detect_objects_yolo settings0 (detector pipeline_ok) (yolo (service controller0))
                  world0 ''/app/src/uploads/a.jpg'' 0.5) = Inr three_objects"
    by (simp add: scenario_defs detector_defs)
  show ?thesis
    using h detect_objects_filters [OF h] by (simp add: three_objects_def)
qed

section \<open>The position of a box\<close>

text \<open>
  C2. The position is a function of the horizontal center \<open>x\<close> of the box and of the
  width \<open>W\<close> of the image only. For \<open>W > 0\<close>, with \<open>W/3\<close> and \<open>2W/3\<close> the floats that
  the code computes: \<open>x < W/3\<close> gives left, \<open>x > 2W/3\<close> gives right, anything else gives
  center, and so do the two boundaries \<open>x = W/3\<close> and \<open>x = 2W/3\<close>.
\<close>

theorem determine_position_tertiles:
  assumes "0 < W"
  shows "(x < py_truediv W 3 \<longrightarrow> determine_position x W = left)
       \<and> (x > py_truediv (2 * W) 3 \<longrightarrow> determine_position x W = right)
       \<and> (\<not> x < py_truediv W 3 \<and> \<not> x > py_truediv (2 * W) 3
            \<longrightarrow> determine_position x W = center)
       \<and> determine_position (py_truediv W 3) W = center
       \<and> determine_position (py_truediv (2 * W) 3) W = center"
  using py_truediv_thirds [OF assms] by (auto simp: determine_position_def)

text \<open>
  At the width 640, which 3 does not divide, the two thresholds are the floats
  213.33333333333334 and 426.6666666666667, both above the exact thirds; a center
  on either of them is in the middle.
\<close>

theorem determine_position_tertiles_witness:
  "(0::int) < 640
   \<and> py_truediv 640 3 = 7505999378950827 / 35184372088832
   \<and> py_truediv (2 * 640) 3 = 7505999378950827 / 17592186044416
   \<and> determine_position 100 640 = left
   \<and> determine_position 500 640 = right
   \<and> determine_position 320 640 = center
   \<and> determine_position (7505999378950827 / 35184372088832) 640 = center
   \<and> determine_position (7505999378950827 / 17592186044416) 640 = center
   \<and> determine_position 50 300 = left \<and> determine_position 250 300 = right
   \<and> determine_position 100 300 = center \<and> determine_position 200 300 = center"
proof -
  have t1: "py_truediv 640 3 = 7505999378950827 / 35184372088832"
    by (rule third_of_640)
  have t2: "py_truediv (2 * 640) 3 = 7505999378950827 / 17592186044416"
    using two_thirds_of_640 by simp
  have t3: "py_truediv (2 * 300) 3 = 200"
    using two_thirds_of_300 by simp
  have w: "(0::int) < 640" by simp
  have b1: "determine_position (py_truediv 640 3) 640 = center"
    using determine_position_tertiles [OF w, of 0] by blast
  have b2: "determine_position (py_truediv (2 * 640) 3) 640 = center"
    using determine_position_tertiles [OF w, of 0] by blast
  have c1: "determine_position (7505999378950827 / 35184372088832) 640 = center"
    using b1 unfolding t1 .
  have c2: "determine_position (7505999378950827 / 17592186044416) 640 = center"
    using b2 unfolding t2 .
  have d1: "determine_position 100 640 = left" "determine_position 500 640 = right"
    "determine_position 320 640 = center"
    using determine_position_tertiles [OF w, of 100] determine_position_tertiles [OF w, of 500]
      determine_position_tertiles [OF w, of 320]
    unfolding t1 t2 by simp_all
  have d2: "determine_position 50 300 = left" "determine_position 250 300 = right"
    "determine_position 100 300 = center" "determine_position 200 300 = center"
    using determine_position_tertiles [of 300 50] determine_position_tertiles [of 300 250]
      third_of_300 t3
    by simp_all
  show ?thesis
    using w t1 t2 c1 c2 d1 d2 by (intro conjI)
qed

section \<open>Failure of the detector\<close>

text \<open>
  C3, as the code has it. If the detector raises \<open>e\<close>, the response has \<open>success\<close>
  false, no objects, \<open>total_objects = 0\<close>, no caption and no speech, and its error
  message is the text \<open>str(e)\<close> of that exception, whatever that text is; neither the
  captioner nor the speech cache nor the synthesizer is called.
\<close>

theorem detector_failure_response:
  assumes "fst (detect_objects_yolo cfg (detector eng) (yolo (service self)) w image_path t)
             = Inl e"
  shows "success (fst (detect_objects cfg eng self w image_path t)) = False
       \<and> objects (fst (detect_objects cfg eng self w image_path t)) = []
       \<and> total_objects (fst (detect_objects cfg eng self w image_path t)) = 0
       \<and> caption (fst (detect_objects cfg eng self w image_path t)) = None
       \<and> speech (fst (detect_objects cfg eng self w image_path t)) = None
       \<and> error_message (fst (detect_objects cfg eng self w image_path t)) = Some (str_of_error e)
       \<and> caption_calls (snd (snd (detect_objects cfg eng self w image_path t))) = caption_calls w
       \<and> speech_calls (snd (snd (detect_objects cfg eng self w image_path t))) = speech_calls w
       \<and> synth_calls (snd (snd (detect_objects cfg eng self w image_path t))) = synth_calls w"
proof -
  from assms obtain y' w' where d:
    "detect_objects_yolo cfg (detector eng) (yolo (service self)) w image_path t = (Inl e, y', w')"
    by (cases "detect_objects_yolo cfg (detector eng) (yolo (service self)) w image_path t") auto
  show ?thesis
    using organize_services_failure [OF d] detect_objects_yolo_frame [OF d]
    by (simp add: detect_objects_def Let_def)
qed

theorem detector_failure_response_witness:
  "fst (detect_objects_yolo settings0 (detector pipeline_bad_image) (yolo (service controller0))
          world0 ''/app/src/uploads/a.jpg'' 0.5) = Inl (LibraryError ''cannot identify image file'')
   \<and> success (fst (detect_objects settings0 pipeline_bad_image controller0 world0
          ''/app/src/uploads/a.jpg'' 0.5)) = False
   \<and> objects (fst (detect_objects settings0 pipeline_bad_image controller0 world0
          ''/app/src/uploads/a.jpg'' 0.5)) = []
   \<and> error_message (fst (detect_objects settings0 pipeline_bad_image controller0 world0
          ''/app/src/uploads/a.jpg'' 0.5)) = Some ''cannot identify image file''
   \<and> caption_calls (snd (snd (detect_objects settings0 pipeline_bad_image controller0 world0
          ''/app/src/uploads/a.jpg'' 0.5))) = 0"
proof -
  have h: "fst (detect_objects_yolo settings0 (detector pipeline_bad_image)
                  (yolo (service controller0)) world0 ''/app/src/uploads/a.jpg'' 0.5)
             = Inl (LibraryError ''cannot identify image file'')"
    by (simp add: pipeline_bad_image_def yolo_bad_image_def scenario_defs detector_defs)
  show ?thesis
    using h detector_failure_response [OF h] by (simp add: world0_def)
qed

text \<open>
  The error message need not be non-empty. Opening the image raises an exception whose
  text is empty (Python's \<open>MemoryError()\<close> is one): the detector fails, and the response
  carries the empty string as its error message.
\<close>

theorem empty_error_message_counterexample:
  "fst (detect_objects_yolo settings0 (detector pipeline_out_of_memory)
          (yolo (service controller0)) world0 ''/app/src/uploads/a.jpg'' 0.5)
     = Inl (LibraryError [])
   \<and> error_message (fst (detect_objects settings0 pipeline_out_of_memory controller0 world0
          ''/app/src/uploads/a.jpg'' 0.5)) = Some []"
  by (simp add: pipeline_out_of_memory_def yolo_out_of_memory_def scenario_defs detector_defs
      detect_objects_def organize_services_def)

section \<open>Failure of the captioner\<close>

text \<open>
  C4. If the detector returns \<open>D\<close> and the captioner does not return a caption (it
  raises, or it returns \<open>None\<close>), the response still has \<open>success\<close> true and the filtered
  detections as its objects; caption and speech are absent, there is no error message,
  and the speech cache is not called.
\<close>

theorem caption_failure_degrades:
  assumes "fst (detect_objects_yolo cfg (detector eng) (yolo (service self)) w image_path t)
             = Inr D"
    and "\<forall>c. captioner eng image_path D \<noteq> Inr (Some c)"
  shows "success (fst (detect_objects cfg eng self w image_path t)) = True
       \<and> objects (fst (detect_objects cfg eng self w image_path t))
           = filter (\<lambda>obj. t \<le> confidence obj) D
       \<and> caption (fst (detect_objects cfg eng self w image_path t)) = None
       \<and> speech (fst (detect_objects cfg eng self w image_path t)) = None
       \<and> error_message (fst (detect_objects cfg eng self w image_path t)) = None
       \<and> speech_calls (snd (snd (detect_objects cfg eng self w image_path t))) = speech_calls w"
proof -
  from assms(1) obtain y' w' where d:
    "detect_objects_yolo cfg (detector eng) (yolo (service self)) w image_path t = (Inr D, y', w')"
    by (cases "detect_objects_yolo cfg (detector eng) (yolo (service self)) w image_path t") auto
  from organize_services_no_caption [OF d assms(2)] obtain w''
    where "organize_services cfg eng (service self) w image_path t
            = (Inr (D, None, None),
               (service self)\<lparr>yolo := y', tts_service := tts_service (service self)\<rparr>, w'')"
      and "speech_calls w'' = speech_calls w'"
    by blast
  then show ?thesis using detect_objects_yolo_frame [OF d]
    by (simp add: detect_objects_def Let_def)
qed

theorem caption_failure_degrades_witness:
  "fst (detect_objects_yolo settings0 (detector pipeline_caption_raises)
          (yolo (service controller0)) world0 ''/app/src/uploads/a.jpg'' 0.5) = Inr three_objects
   \<and> (\<forall>c. captioner pipeline_caption_raises ''/app/src/uploads/a.jpg'' three_objects
            \<noteq> Inr (Some c))
   \<and> (\<forall>c. captioner pipeline_caption_absent ''/app/src/uploads/a.jpg'' three_objects
            \<noteq> Inr (Some c))
   \<and> success (fst (detect_objects settings0 pipeline_caption_raises controller0 world0
          ''/app/src/uploads/a.jpg'' 0.5)) = True
   \<and> objects (fst (detect_objects settings0 pipeline_caption_raises controller0 world0
          ''/app/src/uploads/a.jpg'' 0.5))
       = [\<lparr>object = ''person'', position = left, confidence = 0.9\<rparr>,
          \<lparr>object = ''person'', position = right, confidence = 0.6\<rparr>]
   \<and> caption (fst (detect_objects settings0 pipeline_caption_raises controller0 world0
          ''/app/src/uploads/a.jpg'' 0.5)) = None
   \<and> speech (fst (detect_objects settings0 pipeline_caption_raises controller0 world0
          ''/app/src/uploads/a.jpg'' 0.5)) = None
   \<and> caption (fst (detect_objects settings0 pipeline_caption_absent controller0 world0
          ''/app/src/uploads/a.jpg'' 0.5)) = None
   \<and> speech (fst (detect_objects settings0 pipeline_caption_absent controller0 world0
          ''/app/src/uploads/a.jpg'' 0.5)) = None"
proof -
  have h1: "fst (detect_objects_yolo settings0 (detector pipeline_caption_raises)
          (yolo (service controller0)) world0 ''/app/src/uploads/a.jpg'' 0.5) = Inr three_objects"
    by (simp add: pipeline_caption_raises_def scenario_defs detector_defs)
  have h2: "\<forall>c. captioner pipeline_caption_raises ''/app/src/uploads/a.jpg'' three_objects
            \<noteq> Inr (Some c)"
    by (simp add: pipeline_caption_raises_def)
  have h3: "fst (detect_objects_yolo settings0 (detector pipeline_caption_absent)
          (yolo (service controller0)) world0 ''/app/src/uploads/a.jpg'' 0.5) = Inr three_objects"
    by (simp add: pipeline_caption_absent_def scenario_defs detector_defs)
  have h4: "\<forall>c. captioner pipeline_caption_absent ''/app/src/uploads/a.jpg'' three_objects
            \<noteq> Inr (Some c)"
    by (simp add: pipeline_caption_absent_def)
  show ?thesis
    using h1 h2 h4 caption_failure_degrades [OF h1 h2] caption_failure_degrades [OF h3 h4]
    by (simp add: three_objects_def)
qed

section \<open>The speech cache\<close>

text \<open>
  C5, as the code has it. If a call of \<open>get_speech\<close> with the cache in use returns a
  path (from the cache, or from a synthesis that succeeded), then a second call with the
  same text returns the same path, leaves the cache as it is and does not call the
  synthesizer: over the two calls the synthesizer is called at most once.
\<close>

theorem get_speech_twice:
  assumes "get_speech eng self w spoken True = (Inr p, self1, w1)"
  shows "fst (get_speech eng self1 w1 spoken True) = Inr p
       \<and> fst (snd (get_speech eng self1 w1 spoken True)) = self1
       \<and> synth_calls (snd (snd (get_speech eng self1 w1 spoken True))) = synth_calls w1
       \<and> length (synth_calls w1) \<le> Suc (length (synth_calls w))"
  using assms
    generate_speech_trace [of eng "TTSService.tts self"
      "w\<lparr>speech_calls := speech_calls w @ [spoken]\<rparr>" spoken]
  by (auto simp: get_speech_def Let_def split: prod.splits sum.splits option.splits if_splits)

theorem get_speech_twice_witness:
  "get_speech engine_ok speech_service0 world0 ''a cat'' True
     = (Inr ''/app/src/tts_output/uuid-.mp3'', fst (snd cached_first), snd (snd cached_first))
   \<and> fst (get_speech engine_ok (fst (snd cached_first)) (snd (snd cached_first)) ''a cat'' True)
       = Inr ''/app/src/tts_output/uuid-.mp3''
   \<and> synth_calls (snd (snd (get_speech engine_ok (fst (snd cached_first))
                               (snd (snd cached_first)) ''a cat'' True)))
       = [''a cat'']"
proof -
  have h: "get_speech engine_ok speech_service0 world0 ''a cat'' True
     = (Inr ''/app/src/tts_output/uuid-.mp3'', fst (snd cached_first), snd (snd cached_first))"
    by (simp add: cached_first_def scenario_defs speech_defs)
  have c: "synth_calls (snd (snd cached_first)) = [''a cat'']"
    by (simp add: cached_first_def scenario_defs speech_defs)
  show ?thesis
    using h c get_speech_twice [OF h] by simp
qed

text \<open>
  A failed synthesis is not cached, so two calls can call the synthesizer twice and
  return no common path. With the empty text both calls raise (the synthesizer refuses
  it each time); with an engine that fails once, the first call raises and the second
  returns a path. In both runs the synthesizer has been called twice.
\<close>

theorem get_speech_twice_counterexample:
  "fst empty_first
     = Inl (RuntimeError ''TTS Service Error: Empty text cannot be converted to speech'')
   \<and> fst empty_second
     = Inl (RuntimeError ''TTS Service Error: Empty text cannot be converted to speech'')
   \<and> synth_calls (snd (snd empty_second)) = [[], []]
   \<and> fst flaky_first
     = Inl (RuntimeError ''TTS Service Error: Speech generation failed: connection refused'')
   \<and> fst flaky_second = Inr ''/app/src/tts_output/uuid-x.mp3''
   \<and> synth_calls (snd (snd flaky_second)) = [''a cat'', ''a cat'']"
  by (simp add: empty_first_def empty_second_def flaky_first_def flaky_second_def
      engine_flaky_def scenario_defs speech_defs)

text \<open>
  C6. Whatever the text and the cache, a call of \<open>get_speech\<close> with the cache not in
  use calls the synthesizer (once, with that text), also when the cache holds an entry
  for the text, and leaves the service, and so the cache, exactly as it was.
\<close>

theorem get_speech_bypass:
  "fst (snd (get_speech eng self w spoken False)) = self
   \<and> cache (fst (snd (get_speech eng self w spoken False))) = cache self
   \<and> synth_calls (snd (snd (get_speech eng self w spoken False))) = synth_calls w @ [spoken]"
  using generate_speech_trace [of eng "TTSService.tts self"
      "w\<lparr>speech_calls := speech_calls w @ [spoken]\<rparr>" spoken]
  by (auto simp: get_speech_def Let_def split: prod.splits sum.splits)

text \<open>
  C10. If the synthesizer is called (the cache is not in use, or holds no entry for the
  text) and raises \<open>e\<close>, then \<open>get_speech\<close> raises a \<open>RuntimeError\<close> whose message is
  \<open>TTS Service Error: \<close> followed by the text of \<open>e\<close>, and the service, and so the
  cache, is exactly as it was.
\<close>

theorem get_speech_failure_atomic:
  assumes "\<not> use_cache \<or> cache self spoken = None"
    and "fst (generate_speech eng (TTSService.tts self)
                (w\<lparr>speech_calls := speech_calls w @ [spoken]\<rparr>) spoken) = Inl e"
  shows "fst (get_speech eng self w spoken use_cache)
           = Inl (RuntimeError (''TTS Service Error: '' @ str_of_error e))
       \<and> fst (snd (get_speech eng self w spoken use_cache)) = self
       \<and> cache (fst (snd (get_speech eng self w spoken use_cache))) = cache self"
  using assms by (auto simp: get_speech_def Let_def split: prod.splits sum.splits)

theorem get_speech_failure_atomic_witness:
  "cache speech_service0 ''a cat'' = None
   \<and> fst (generate_speech engine_flaky (TTSService.tts speech_service0)
            (world0\<lparr>speech_calls := speech_calls world0 @ [''a cat'']\<rparr>) ''a cat'')
       = Inl (RuntimeError ''Speech generation failed: connection refused'')
   \<and> fst (get_speech engine_flaky speech_service0 world0 ''a cat'' True)
       = Inl (RuntimeError ''TTS Service Error: Speech generation failed: connection refused'')
   \<and> cache (fst (snd (get_speech engine_flaky speech_service0 world0 ''a cat'' True)))
       = Map.empty"
proof -
  have h1: "\<not> True \<or> cache speech_service0 ''a cat'' = None"
    by (simp add: scenario_defs)
  have h2: "fst (generate_speech engine_flaky (TTSService.tts speech_service0)
            (world0\<lparr>speech_calls := speech_calls world0 @ [''a cat'']\<rparr>) ''a cat'')
       = Inl (RuntimeError ''Speech generation failed: connection refused'')"
    by (simp add: engine_flaky_def scenario_defs speech_defs)
  have c: "cache speech_service0 = Map.empty"
    by (simp add: scenario_defs)
  show ?thesis
    using h1 h2 c get_speech_failure_atomic [OF h1 h2] by simp
qed

section \<open>The model cache\<close>

text \<open>
  C7. The claim is that the model is loaded at most once for each model name in the
  life of the process, the handle being kept and used again by later requests. The
  manager does keep what it loads (\<open>load_model_reuses_cache\<close>), but the request handler
  builds a new controller, and with it a new manager with an empty cache, at every
  request. Two requests in a process that has just started: the first constructs the
  model, and the second constructs it again.
\<close>

theorem model_loaded_at_every_request:
  "yolo_loads world0 = []
   \<and> yolo_loads (snd first_request) = [''yolov8n.pt'']
   \<and> yolo_loads (snd second_request) = [''yolov8n.pt'', ''yolov8n.pt'']"
  by (simp add: first_request_def second_request_def upload0_def api_detect_def
      save_upload_file_def splitext_ext_def str_lower_def char_lower_def get_uploads_dir_def
      cleanup_file_def detect_objects_def organize_services_def get_speech_def
      generate_speech_def scenario_defs detector_defs)

section \<open>The threshold given to the detector\<close>

text \<open>
  C8. The detector takes a threshold and does not use it: for any two thresholds it
  returns the same result (and leaves the same state). What it returns is the whole
  list of boxes of the model, one object for each box with the confidence of that box,
  whatever the threshold; filtering is left to the caller.
\<close>

theorem detect_objects_yolo_ignores_threshold:
  "detect_objects_yolo cfg eng self w image_path t1
     = detect_objects_yolo cfg eng self w image_path t2
   \<and> (fst (load_model cfg eng self w None) = Inr m
        \<and> Image_open eng image_path = Inr img \<and> run_model eng m img = Inr boxes
        \<and> fst (detect_objects_yolo cfg eng self w image_path t1) = Inr D
      \<longrightarrow> map confidence D = map conf boxes)"
  using boxes_to_objects_raw [of "names eng m" "img_width img" boxes "[]" D]
  by (auto simp: detect_objects_yolo_def split: prod.splits)

theorem detect_objects_yolo_ignores_threshold_witness:
  "fst (load_model settings0 yolo_ok YOLOModelManager_init world0 None) = Inr 0
   \<and> Image_open yolo_ok ''/app/src/uploads/a.jpg'' = Inr \<lparr>img_width = 300, img_height = 100\<rparr>
   \<and> run_model yolo_ok 0 \<lparr>img_width = 300, img_height = 100\<rparr> = Inr three_boxes
   \<and> fst (detect_objects_yolo settings0 yolo_ok YOLOModelManager_init world0
            ''/app/src/uploads/a.jpg'' 0.5) = Inr three_objects
   \<and> detect_objects_yolo settings0 yolo_ok YOLOModelManager_init world0
            ''/app/src/uploads/a.jpg'' 0.5
       = detect_objects_yolo settings0 yolo_ok YOLOModelManager_init world0
            ''/app/src/uploads/a.jpg'' 0.95
   \<and> map confidence three_objects = map conf three_boxes"
proof -
  have h1: "fst (load_model settings0 yolo_ok YOLOModelManager_init world0 None) = Inr 0"
    by (simp add: scenario_defs detector_defs)
  have h2: "Image_open yolo_ok ''/app/src/uploads/a.jpg''
              = Inr \<lparr>img_width = 300, img_height = 100\<rparr>"
    by (simp add: yolo_ok_def)
  have h3: "run_model yolo_ok 0 \<lparr>img_width = 300, img_height = 100\<rparr> = Inr three_boxes"
    by (simp add: yolo_ok_def)
  have h4: "fst (detect_objects_yolo settings0 yolo_ok YOLOModelManager_init world0
            ''/app/src/uploads/a.jpg'' 0.5) = Inr three_objects"
    by (simp add: scenario_defs detector_defs)
  show ?thesis
    using h1 h2 h3 h4
      detect_objects_yolo_ignores_threshold [of settings0 yolo_ok YOLOModelManager_init world0
        "''/app/src/uploads/a.jpg''" "0.5" "0.95" 0 "\<lparr>img_width = 300, img_height = 100\<rparr>"
        three_boxes three_objects]
    by simp
qed

section \<open>The captioner never raises\<close>

text \<open>
  C9, as the code has it. \<open>generate_caption\<close> never raises. With no credential it
  returns \<open>None\<close> at once and sends nothing. With a credential it returns \<open>None\<close> when
  reading the image or the POST raises, when the status of the response is from 400 to
  599, when the body is not JSON, and when the body is not a well-formed answer: in
  particular when it has no \<open>choices\<close>, or an empty list of them. In every other case,
  whatever the status, it returns the caption that the well-formed body carries.
\<close>

theorem generate_caption_never_raises:
  "(\<exists>v. fst (generate_caption eng self w image_path objects_desc) = Inr v)
   \<and> (api_key self = [] \<longrightarrow>
        generate_caption eng self w image_path objects_desc = (Inr JNull, w))
   \<and> (caption_request eng self w image_path objects_desc = Inl e \<longrightarrow>
        fst (generate_caption eng self w image_path objects_desc) = Inr JNull)
   \<and> (caption_request eng self w image_path objects_desc = Inr response
        \<and> 400 \<le> status_code response \<and> status_code response < 600 \<longrightarrow>
        fst (generate_caption eng self w image_path objects_desc) = Inr JNull)
   \<and> (caption_request eng self w image_path objects_desc = Inr response
        \<and> response_json response = Inl e \<longrightarrow>
        fst (generate_caption eng self w image_path objects_desc) = Inr JNull)
   \<and> (caption_request eng self w image_path objects_desc = Inr response
        \<and> response_json response = Inr body \<and> well_formed_caption body = None \<longrightarrow>
        fst (generate_caption eng self w image_path objects_desc) = Inr JNull)
   \<and> (caption_request eng self w image_path objects_desc = Inr response
        \<and> response_json response = Inr (JObj kvs) \<and> ''choices'' \<notin> set (map fst kvs) \<longrightarrow>
        fst (generate_caption eng self w image_path objects_desc) = Inr JNull)
   \<and> (caption_request eng self w image_path objects_desc = Inr response
        \<and> response_json response = Inr (JObj kvs)
        \<and> map_of (rev kvs) ''choices'' = Some (JArr []) \<longrightarrow>
        fst (generate_caption eng self w image_path objects_desc) = Inr JNull)
   \<and> (api_key self \<noteq> []
        \<and> caption_request eng self w image_path objects_desc = Inr response
        \<and> \<not> (400 \<le> status_code response \<and> status_code response < 600)
        \<and> response_json response = Inr body \<and> well_formed_caption body = Some v \<longrightarrow>
        fst (generate_caption eng self w image_path objects_desc) = Inr v)"
proof -
  have absent: "fst (generate_caption eng self w image_path objects_desc) = Inr JNull"
    if "caption_request eng self w image_path objects_desc = Inr response"
      and "response_json response = Inr b" and "well_formed_caption b = None"
    for b
    using that extract_caption_refines [of b]
    unfolding generate_caption_result generate_caption_try_request
    by (auto simp: and_then_def raise_for_status_def split: sum.splits)
  have missing: "well_formed_caption (JObj kvs) = None"
    if "''choices'' \<notin> set (map fst kvs)"
    using that map_of_rev_None [of kvs "''choices''"]
    by (simp add: well_formed_caption_def)
  have empty: "well_formed_caption (JObj kvs) = None"
    if "map_of (rev kvs) ''choices'' = Some (JArr [])"
    using that by (simp add: well_formed_caption_def)
  have present: "fst (generate_caption eng self w image_path objects_desc) = Inr v"
    if "api_key self \<noteq> []"
      and "caption_request eng self w image_path objects_desc = Inr response"
      and "\<not> (400 \<le> status_code response \<and> status_code response < 600)"
      and "response_json response = Inr body" and "well_formed_caption body = Some v"
    using that extract_caption_refines [of body]
    unfolding generate_caption_result generate_caption_try_request
    by (auto simp: and_then_def raise_for_status_def split: sum.splits)
  have rest:
    "(\<exists>v. fst (generate_caption eng self w image_path objects_desc) = Inr v)
     \<and> (api_key self = [] \<longrightarrow>
          generate_caption eng self w image_path objects_desc = (Inr JNull, w))
     \<and> (caption_request eng self w image_path objects_desc = Inl e \<longrightarrow>
          fst (generate_caption eng self w image_path objects_desc) = Inr JNull)
     \<and> (caption_request eng self w image_path objects_desc = Inr response
          \<and> 400 \<le> status_code response \<and> status_code response < 600 \<longrightarrow>
          fst (generate_caption eng self w image_path objects_desc) = Inr JNull)
     \<and> (caption_request eng self w image_path objects_desc = Inr response
          \<and> response_json response = Inl e \<longrightarrow>
          fst (generate_caption eng self w image_path objects_desc) = Inr JNull)"
    unfolding generate_caption_result generate_caption_try_request
    by (auto simp: generate_caption_def and_then_def raise_for_status_def split: sum.splits)
  show ?thesis
    using rest absent [of body] absent [of "JObj kvs"] missing empty present
    by auto
qed

theorem generate_caption_never_raises_witness:
  "api_key vlm_no_key = []
   \<and> generate_caption (vlm_answering 200 (Inr caption_body)) vlm_no_key world0
        ''/app/src/uploads/a.jpg'' ''person, dog'' = (Inr JNull, world0)
   \<and> caption_request vlm_unreachable vlm0 world0 ''/app/src/uploads/a.jpg'' ''person, dog''
        = Inl (LibraryError ''ConnectionError'')
   \<and> fst (generate_caption vlm_unreachable vlm0 world0
        ''/app/src/uploads/a.jpg'' ''person, dog'') = Inr JNull
   \<and> caption_request (vlm_answering 500 (Inr caption_body)) vlm0 world0
        ''/app/src/uploads/a.jpg'' ''person, dog''
        = Inr \<lparr>status_code = 500, response_json = Inr caption_body\<rparr>
   \<and> fst (generate_caption (vlm_answering 500 (Inr caption_body)) vlm0 world0
        ''/app/src/uploads/a.jpg'' ''person, dog'') = Inr JNull
   \<and> caption_request (vlm_answering 200 (Inl (LibraryError ''JSONDecodeError''))) vlm0 world0
        ''/app/src/uploads/a.jpg'' ''person, dog''
        = Inr \<lparr>status_code = 200, response_json = Inl (LibraryError ''JSONDecodeError'')\<rparr>
   \<and> fst (generate_caption (vlm_answering 200 (Inl (LibraryError ''JSONDecodeError''))) vlm0
        world0 ''/app/src/uploads/a.jpg'' ''person, dog'') = Inr JNull
   \<and> well_formed_caption (JObj [(''choices'', JNum 1)]) = None
   \<and> fst (generate_caption (vlm_answering 200 (Inr (JObj [(''choices'', JNum 1)]))) vlm0 world0
        ''/app/src/uploads/a.jpg'' ''person, dog'') = Inr JNull
   \<and> ''choices'' \<notin> set (map fst [(''error'', JStr ''rate limited'')])
   \<and> fst (generate_caption
            (vlm_answering 200 (Inr (JObj [(''error'', JStr ''rate limited'')]))) vlm0 world0
        ''/app/src/uploads/a.jpg'' ''person, dog'') = Inr JNull
   \<and> map_of (rev [(''choices'', JArr [])]) ''choices'' = Some (JArr [])
   \<and> fst (generate_caption (vlm_answering 200 (Inr (JObj [(''choices'', JArr [])]))) vlm0 world0
        ''/app/src/uploads/a.jpg'' ''person, dog'') = Inr JNull
   \<and> api_key vlm0 \<noteq> []
   \<and> caption_request (vlm_answering 200 (Inr caption_body)) vlm0 world0
        ''/app/src/uploads/a.jpg'' ''person, dog''
        = Inr \<lparr>status_code = 200, response_json = Inr caption_body\<rparr>
   \<and> well_formed_caption caption_body = Some (JStr ''A dog on a sofa.'')
   \<and> fst (generate_caption (vlm_answering 200 (Inr caption_body)) vlm0 world0
        ''/app/src/uploads/a.jpg'' ''person, dog'') = Inr (JStr ''A dog on a sofa.'')"
proof -
  let ?p = "''/app/src/uploads/a.jpg''" and ?d = "''person, dog''"
  have req: "caption_request (vlm_answering status answer) vlm0 world0 ?p ?d
               = Inr \<lparr>status_code = status, response_json = answer\<rparr>" for status answer
    by (simp add: caption_request_def vlm_answering_def)
  have k0: "api_key vlm_no_key = []" by (simp add: vlm_no_key_def)
  have k1: "api_key vlm0 \<noteq> []" by (simp add: vlm_defs)
  have r1: "caption_request vlm_unreachable vlm0 world0 ?p ?d
              = Inl (LibraryError ''ConnectionError'')"
    by (simp add: vlm_defs)
  have x4: "well_formed_caption (JObj [(''choices'', JNum 1)]) = None"
    by (simp add: well_formed_caption_def)
  have x5: "well_formed_caption caption_body = Some (JStr ''A dog on a sofa.'')"
    by (simp add: well_formed_caption_def caption_body_def)
  have x6: "''choices'' \<notin> set (map fst [(''error'', JStr ''rate limited'')])"
    by simp
  have x7: "map_of (rev [(''choices'', JArr [])]) ''choices'' = Some (JArr [])"
    by simp
  show ?thesis
    using k0 k1 r1 x4 x5 x6 x7
      req [of 500 "Inr caption_body"] req [of 200 "Inl (LibraryError ''JSONDecodeError'')"]
      req [of 200 "Inr (JObj [(''choices'', JNum 1)])"]
      req [of 200 "Inr (JObj [(''error'', JStr ''rate limited'')])"]
      req [of 200 "Inr (JObj [(''choices'', JArr [])])"]
      req [of 200 "Inr caption_body"]
      generate_caption_never_raises
        [of "vlm_answering 200 (Inr caption_body)" vlm_no_key world0 ?p ?d]
      generate_caption_never_raises
        [of vlm_unreachable vlm0 world0 ?p ?d "LibraryError ''ConnectionError''"]
      generate_caption_never_raises
        [of "vlm_answering 500 (Inr caption_body)" vlm0 world0 ?p ?d _
            "\<lparr>status_code = 500, response_json = Inr caption_body\<rparr>"]
      generate_caption_never_raises
        [of "vlm_answering 200 (Inl (LibraryError ''JSONDecodeError''))" vlm0 world0 ?p ?d
            "LibraryError ''JSONDecodeError''"
            "\<lparr>status_code = 200, response_json = Inl (LibraryError ''JSONDecodeError'')\<rparr>"]
      generate_caption_never_raises
        [of "vlm_answering 200 (Inr (JObj [(''choices'', JNum 1)]))" vlm0 world0 ?p ?d _
            "\<lparr>status_code = 200, response_json = Inr (JObj [(''choices'', JNum 1)])\<rparr>"
            "JObj [(''choices'', JNum 1)]"]
      generate_caption_never_raises
        [of "vlm_answering 200 (Inr (JObj [(''error'', JStr ''rate limited'')]))" vlm0 world0
            ?p ?d _
            "\<lparr>status_code = 200,
               response_json = Inr (JObj [(''error'', JStr ''rate limited'')])\<rparr>"
            _ "[(''error'', JStr ''rate limited'')]"]
      generate_caption_never_raises
        [of "vlm_answering 200 (Inr (JObj [(''choices'', JArr [])]))" vlm0 world0 ?p ?d _
            "\<lparr>status_code = 200, response_json = Inr (JObj [(''choices'', JArr [])])\<rparr>"
            _ "[(''choices'', JArr [])]"]
      generate_caption_never_raises
        [of "vlm_answering 200 (Inr caption_body)" vlm0 world0 ?p ?d _
            "\<lparr>status_code = 200, response_json = Inr caption_body\<rparr>" caption_body _
            "JStr ''A dog on a sofa.''"]
    by simp
qed

text \<open>
  A response whose status is not 2xx need not give \<open>None\<close>: \<open>raise_for_status\<close> lets a
  status of 300 pass, and the caption in the body of such a response is returned.
\<close>

theorem redirect_response_counterexample:
  "caption_request (vlm_answering 300 (Inr caption_body)) vlm0 world0
       ''/app/src/uploads/a.jpg'' ''person, dog''
     = Inr \<lparr>status_code = 300, response_json = Inr caption_body\<rparr>
   \<and> fst (generate_caption (vlm_answering 300 (Inr caption_body)) vlm0 world0
            ''/app/src/uploads/a.jpg'' ''person, dog'') = Inr (JStr ''A dog on a sofa.'')"
  by (simp add: vlm_defs)

end
